theory Spec2Isabelle
  imports Main "HOL-Library.Sublist" "HOL-Library.Multiset"
begin

section \<open>Go strings as byte lists\<close>

text \<open>
  A Go string is a sequence of bytes; \<^typ>\<open>string\<close> is a list of 8-bit characters, so
  a string of the program is modelled byte for byte.  The functions of this section are
  the ones of Go's package \<^verbatim>\<open>strings\<close> that the program calls.
\<close>

text \<open>
  \<^verbatim>\<open>unicode.IsSpace\<close>: the white space code points, each given by its UTF-8 encoding
  (U+0009..U+000D, U+0020, U+0085, U+00A0, U+1680, U+2000..U+200A, U+2028, U+2029,
  U+202F, U+205F, U+3000).
\<close>

definition unicodeSpaces :: "string list" where
  "unicodeSpaces =
    [[CHR 0x09], [CHR 0x0A], [CHR 0x0B], [CHR 0x0C], [CHR 0x0D], [CHR 0x20],
     [CHR 0xC2, CHR 0x85], [CHR 0xC2, CHR 0xA0],
     [CHR 0xE1, CHR 0x9A, CHR 0x80],
     [CHR 0xE2, CHR 0x80, CHR 0x80], [CHR 0xE2, CHR 0x80, CHR 0x81],
     [CHR 0xE2, CHR 0x80, CHR 0x82], [CHR 0xE2, CHR 0x80, CHR 0x83],
     [CHR 0xE2, CHR 0x80, CHR 0x84], [CHR 0xE2, CHR 0x80, CHR 0x85],
     [CHR 0xE2, CHR 0x80, CHR 0x86], [CHR 0xE2, CHR 0x80, CHR 0x87],
     [CHR 0xE2, CHR 0x80, CHR 0x88], [CHR 0xE2, CHR 0x80, CHR 0x89],
     [CHR 0xE2, CHR 0x80, CHR 0x8A],
     [CHR 0xE2, CHR 0x80, CHR 0xA8], [CHR 0xE2, CHR 0x80, CHR 0xA9],
     [CHR 0xE2, CHR 0x80, CHR 0xAF], [CHR 0xE2, CHR 0x81, CHR 0x9F],
     [CHR 0xE3, CHR 0x80, CHR 0x80]]"

text \<open>
  \<open>dropSpaces ws s\<close> removes from the front of \<open>s\<close>, as long as there is one, an
  element of \<open>ws\<close> (a white space encoding).
\<close>

fun dropSpaces :: "string list \<Rightarrow> string \<Rightarrow> string" where
  "dropSpaces ws [] = []"
| "dropSpaces ws (c # cs) =
     (case find (\<lambda>w. prefix w (c # cs)) ws of
        None \<Rightarrow> c # cs
      | Some w \<Rightarrow> dropSpaces ws (drop (length w - 1) cs))"

definition TrimLeft :: "string \<Rightarrow> string" where
  "TrimLeft s = dropSpaces unicodeSpaces s"

definition TrimRight :: "string \<Rightarrow> string" where
  "TrimRight s = rev (dropSpaces (map rev unicodeSpaces) (rev s))"

text \<open>\<^verbatim>\<open>strings.TrimSpace\<close>: leading and trailing white space removed.\<close>

definition TrimSpace :: "string \<Rightarrow> string" where
  "TrimSpace s = TrimRight (TrimLeft s)"

text \<open>\<^verbatim>\<open>strings.HasPrefix(s, p)\<close>.\<close>

definition HasPrefix :: "string \<Rightarrow> string \<Rightarrow> bool" where
  "HasPrefix s p = prefix p s"

text \<open>
  \<^verbatim>\<open>strings.Split(s, sep)\<close> for a separator that is not empty (the program splits on
  \<^verbatim>\<open>"##"\<close>, \<^verbatim>\<open>"<||>"\<close> and \<^verbatim>\<open>","\<close> only): the pieces between the occurrences of \<open>sep\<close>,
  found from left to right without overlap.  The result is never empty.
\<close>

fun Split :: "string \<Rightarrow> string \<Rightarrow> string list" where
  "Split [] sep = [[]]"
| "Split (c # cs) sep =
     (if sep \<noteq> [] \<and> prefix sep (c # cs)
      then [] # Split (drop (length sep - 1) cs) sep
      else (case Split cs sep of
              [] \<Rightarrow> [[c]]
            | f # fs \<Rightarrow> (c # f) # fs))"

text \<open>\<^verbatim>\<open>strings.Join(xs, sep)\<close>.\<close>

fun Join :: "string list \<Rightarrow> string \<Rightarrow> string" where
  "Join [] sep = []"
| "Join [x] sep = x"
| "Join (x # y # ys) sep = x @ sep @ Join (y # ys) sep"

text \<open>\<^verbatim>\<open>strings.Contains(s, sub)\<close>.\<close>

fun Contains :: "string \<Rightarrow> string \<Rightarrow> bool" where
  "Contains [] sub = (sub = [])"
| "Contains (c # cs) sub = (prefix sub (c # cs) \<or> Contains cs sub)"

text \<open>
  \<^verbatim>\<open>strings.NewReplacer(old1, new1, ...).Replace(s)\<close> for old strings that are not
  empty: the input is read from left to right; at each position the first pair, in
  argument order, whose old string starts there is replaced, and reading goes on behind
  it.  \<^verbatim>\<open>strings.ReplaceAll(s, old, new)\<close> is the replacer of the one pair.
\<close>

fun Replace :: "(string \<times> string) list \<Rightarrow> string \<Rightarrow> string" where
  "Replace ps [] = []"
| "Replace ps (c # cs) =
     (case find (\<lambda>p. fst p \<noteq> [] \<and> prefix (fst p) (c # cs)) ps of
        None \<Rightarrow> c # Replace ps cs
      | Some p \<Rightarrow> snd p @ Replace ps (drop (length (fst p) - 1) cs))"

definition ReplaceAll :: "string \<Rightarrow> string \<Rightarrow> string \<Rightarrow> string" where
  "ReplaceAll s old new = Replace [(old, new)] s"

section \<open>Panics and indexing\<close>

text \<open>
  An index expression \<^verbatim>\<open>xs[i]\<close> of Go panics when \<open>i\<close> is out of range; the only other
  run-time panic the parsers could raise is a nil dereference, and their output pointer
  is never nil.
\<close>

datatype panic = IndexOutOfRange nat nat

definition index :: "'a list \<Rightarrow> nat \<Rightarrow> panic + 'a" where
  "index xs i = (if i < length xs then Inr (xs ! i) else Inl (IndexOutOfRange i (length xs)))"

definition bind :: "'e + 'a \<Rightarrow> ('a \<Rightarrow> 'e + 'b) \<Rightarrow> 'e + 'b" where
  "bind m f = (case m of Inl e \<Rightarrow> Inl e | Inr x \<Rightarrow> f x)"

section \<open>Numbers\<close>

subsection \<open>float64\<close>

text \<open>
  A float64 is its IEEE 754 binary64 datum: \<open>Finite neg m e\<close> is the number
  \<open>(-1)\<^sup>n\<^sup>e\<^sup>g * m * 2\<^sup>e\<close> with \<open>m < 2\<^sup>5\<^sup>3\<close> and \<open>-1074 \<le> e \<le> 971\<close>, and
  \<open>2\<^sup>5\<^sup>2 \<le> m\<close> unless \<open>e = -1074\<close> (zero and the subnormal numbers), so that every
  number has one representation.
\<close>

datatype float64 = Finite bool nat int | Infinite bool | NaN

text \<open>The sign-carrying integer \<open>m * 2\<^sup>e\<^sup>-\<^sup>k\<close> of a finite number, for \<open>k \<le> e\<close>.\<close>

definition scaled :: "bool \<Rightarrow> nat \<Rightarrow> int \<Rightarrow> int \<Rightarrow> int" where
  "scaled neg m e k = (if neg then - 1 else 1) * int m * 2 ^ nat (e - k)"

text \<open>The comparison \<^verbatim>\<open>a > b\<close> of Go on float64: false when either side is NaN.\<close>

fun f64_gt :: "float64 \<Rightarrow> float64 \<Rightarrow> bool" where
  "f64_gt NaN b = False"
| "f64_gt a NaN = False"
| "f64_gt (Infinite na) (Infinite nb) = (\<not> na \<and> nb)"
| "f64_gt (Infinite na) (Finite nb mb eb) = (\<not> na)"
| "f64_gt (Finite na ma ea) (Infinite nb) = nb"
| "f64_gt (Finite na ma ea) (Finite nb mb eb) =
     (scaled nb mb eb (min ea eb) < scaled na ma ea (min ea eb))"

text \<open>The constant \<^verbatim>\<open>0.5\<close>, which is \<open>2\<^sup>5\<^sup>2 * 2\<^sup>-\<^sup>5\<^sup>3\<close>.\<close>

definition f64_half :: float64 where
  "f64_half = Finite False (2 ^ 52) (- 53)"

definition f64_zero :: float64 where
  "f64_zero = Finite False 0 (- 1074)"

text \<open>The number of binary digits of a natural number.\<close>

fun bitlen :: "nat \<Rightarrow> nat" where
  "bitlen n = (if n = 0 then 0 else Suc (bitlen (n div 2)))"

declare bitlen.simps [simp del]

text \<open>
  \<open>round_f64 neg num den\<close> is the float64 nearest to \<open>num / den\<close> (for \<open>0 < den\<close>),
  ties to the even mantissa, with the sign \<open>neg\<close>; a number too large is an infinity.
  \<open>e0\<close> is the exponent of the leading binary digit of \<open>num / den\<close>.
\<close>

definition round_f64 :: "bool \<Rightarrow> nat \<Rightarrow> nat \<Rightarrow> float64" where
  "round_f64 neg num den =
     (if num = 0 then Finite neg 0 (- 1074)
      else
        let b = int (bitlen num) - int (bitlen den);
            e0 = (if (if 0 \<le> b then den * 2 ^ nat b \<le> num else den \<le> num * 2 ^ nat (- b))
                  then b else b - 1);
            e = max e0 (- 1022);
            sh = 52 - e;
            n' = (if 0 \<le> sh then num * 2 ^ nat sh else num);
            d' = (if 0 \<le> sh then den else den * 2 ^ nat (- sh));
            q = n' div d';
            r = n' mod d';
            q' = (if d' < 2 * r \<or> (2 * r = d' \<and> odd q) then q + 1 else q);
            m = (if q' = 2 ^ 53 then 2 ^ 52 else q');
            ex = (if q' = 2 ^ 53 then e - 51 else e - 52)
        in if 971 < ex then Infinite neg else Finite neg m ex)"

subsection \<open>Characters of numbers\<close>

definition isDigit :: "char \<Rightarrow> bool" where
  "isDigit c \<longleftrightarrow> (48::nat) \<le> of_char c \<and> (of_char c :: nat) \<le> 57"

definition digitVal :: "char \<Rightarrow> nat" where
  "digitVal c = of_char c - 48"

text \<open>\<^verbatim>\<open>lower(c)\<close> of package \<^verbatim>\<open>strconv\<close>, which is \<^verbatim>\<open>c | 0x20\<close>.\<close>

definition lower :: "char \<Rightarrow> char" where
  "lower c = (if (of_char c :: nat) div 32 mod 2 = 1 then c else char_of ((of_char c :: nat) + 32))"

definition isHexLetter :: "char \<Rightarrow> bool" where
  "isHexLetter c \<longleftrightarrow> (97::nat) \<le> of_char (lower c) \<and> (of_char (lower c) :: nat) \<le> 102"

definition hexVal :: "char \<Rightarrow> nat" where
  "hexVal c = of_char (lower c) - 87"

subsection \<open>strconv.Atoi\<close>

text \<open>
  The digit loop of \<^verbatim>\<open>strconv.ParseUint(s, 10, 64)\<close>: the number read so far, and how the
  loop ended.  It returns as soon as the number leaves the range of uint64, before it
  has looked at the characters that follow.
\<close>

datatype numError = ErrSyntax | ErrRange

definition maxUint64 :: nat where
  "maxUint64 = 2 ^ 64 - 1"

fun parseUintLoop :: "nat \<Rightarrow> string \<Rightarrow> nat \<times> numError option" where
  "parseUintLoop n [] = (n, None)"
| "parseUintLoop n (c # cs) =
     (if \<not> isDigit c then (0, Some ErrSyntax)
      else if maxUint64 div 10 + 1 \<le> n then (maxUint64, Some ErrRange)
      else if maxUint64 < n * 10 + digitVal c then (maxUint64, Some ErrRange)
      else parseUintLoop (n * 10 + digitVal c) cs)"

definition ParseUint :: "string \<Rightarrow> nat \<times> numError option" where
  "ParseUint s = (if s = [] then (0, Some ErrSyntax) else parseUintLoop 0 s)"

text \<open>
  \<^verbatim>\<open>strconv.Atoi(s)\<close> with a 64-bit \<^verbatim>\<open>int\<close>, as the program uses it (\<^verbatim>\<open>start, _ := ...\<close>):
  the value returned beside the error.  A malformed text gives 0; a number out of
  range gives the nearest bound of int64.
\<close>

definition Atoi :: "string \<Rightarrow> int" where
  "Atoi s =
     (case s of
        [] \<Rightarrow> 0
      | c # r \<Rightarrow>
          let neg = (c = CHR ''-'');
              body = (if c = CHR ''+'' \<or> c = CHR ''-'' then r else s);
              (un, err) = ParseUint body
          in if err = Some ErrSyntax then 0
             else if \<not> neg \<and> 2 ^ 63 \<le> un then 2 ^ 63 - 1
             else if neg \<and> 2 ^ 63 < un then - (2 ^ 63)
             else if neg then - int un else int un)"

subsection \<open>strconv.ParseFloat\<close>

text \<open>
  \<^verbatim>\<open>commonPrefixLenIgnoreCase(s, prefix)\<close>, for a prefix in lower case.
\<close>

definition lowerAZ :: "char \<Rightarrow> char" where
  "lowerAZ c = (if (65::nat) \<le> of_char c \<and> (of_char c :: nat) \<le> 90
                then char_of ((of_char c :: nat) + 32) else c)"

fun commonPrefixLenIgnoreCase :: "string \<Rightarrow> string \<Rightarrow> nat" where
  "commonPrefixLenIgnoreCase (c # cs) (p # ps) =
     (if lowerAZ c = p then Suc (commonPrefixLenIgnoreCase cs ps) else 0)"
| "commonPrefixLenIgnoreCase cs ps = 0"

text \<open>
  \<^verbatim>\<open>special(s)\<close>: an infinity (with a sign or not) or a NaN at the front of \<open>s\<close>, and the
  number of bytes it takes.
\<close>

definition specialInf :: "bool \<Rightarrow> nat \<Rightarrow> string \<Rightarrow> (float64 \<times> nat) option" where
  "specialInf neg nsign t =
     (let n0 = commonPrefixLenIgnoreCase t ''infinity'';
          n = (if 3 < n0 \<and> n0 < 8 then 3 else n0)
      in if n = 3 \<or> n = 8 then Some (Infinite neg, nsign + n) else None)"

definition special :: "string \<Rightarrow> (float64 \<times> nat) option" where
  "special s =
     (case s of
        [] \<Rightarrow> None
      | c # r \<Rightarrow>
          if c = CHR ''+'' \<or> c = CHR ''-'' then specialInf (c = CHR ''-'') 1 r
          else if c = CHR ''i'' \<or> c = CHR ''I'' then specialInf False 0 s
          else if c = CHR ''n'' \<or> c = CHR ''N'' then
            (if commonPrefixLenIgnoreCase s ''nan'' = 3 then Some (NaN, 3) else None)
          else None)"

text \<open>
  The state of \<^verbatim>\<open>readFloat\<close> in its digit loop.  \<open>rf_mant\<close> is the number written by
  all the digits counted in \<open>rf_nd\<close>; Go keeps the first 19 of them (16 in base 16) and a
  flag for a digit cut off that is not zero, and its conversions round as for the whole
  digit string.
\<close>

record rf =
  rf_mant :: nat
  rf_nd :: nat
  rf_dp :: int
  rf_sawdot :: bool
  rf_sawdigits :: bool
  rf_underscores :: bool

fun readDigits :: "bool \<Rightarrow> rf \<Rightarrow> string \<Rightarrow> rf \<times> string" where
  "readDigits hex st [] = (st, [])"
| "readDigits hex st (c # cs) =
     (if c = CHR ''_'' then readDigits hex (st\<lparr>rf_underscores := True\<rparr>) cs
      else if c = CHR ''.'' then
        (if rf_sawdot st then (st, c # cs)
         else readDigits hex (st\<lparr>rf_sawdot := True, rf_dp := int (rf_nd st)\<rparr>) cs)
      else if isDigit c then
        (if c = CHR ''0'' \<and> rf_nd st = 0
         then readDigits hex (st\<lparr>rf_sawdigits := True, rf_dp := rf_dp st - 1\<rparr>) cs
         else readDigits hex
                (st\<lparr>rf_sawdigits := True, rf_nd := rf_nd st + 1,
                    rf_mant := rf_mant st * (if hex then 16 else 10) + digitVal c\<rparr>) cs)
      else if hex \<and> isHexLetter c then
        readDigits hex
          (st\<lparr>rf_sawdigits := True, rf_nd := rf_nd st + 1,
              rf_mant := rf_mant st * 16 + hexVal c\<rparr>) cs
      else (st, c # cs))"

text \<open>The digits of the exponent: it stops growing once it has reached 10000.\<close>

fun readExp :: "nat \<Rightarrow> bool \<Rightarrow> string \<Rightarrow> nat \<times> bool \<times> string" where
  "readExp e us [] = (e, us, [])"
| "readExp e us (c # cs) =
     (if c = CHR ''_'' then readExp e True cs
      else if isDigit c then readExp (if e < 10000 then e * 10 + digitVal c else e) us cs
      else (e, us, c # cs))"

text \<open>
  \<^verbatim>\<open>underscoreOK(s)\<close>: an underscore stands between two digits, or between a base prefix
  and a digit.  \<open>saw\<close> is the kind of the character before.
\<close>

fun underscoreLoop :: "bool \<Rightarrow> char \<Rightarrow> string \<Rightarrow> bool" where
  "underscoreLoop hex saw [] = (saw \<noteq> CHR ''_'')"
| "underscoreLoop hex saw (c # cs) =
     (if isDigit c \<or> (hex \<and> isHexLetter c) then underscoreLoop hex (CHR ''0'') cs
      else if c = CHR ''_'' then
        (if saw \<noteq> CHR ''0'' then False else underscoreLoop hex (CHR ''_'') cs)
      else if saw = CHR ''_'' then False
      else underscoreLoop hex (CHR ''!'') cs)"

definition underscoreOK :: "string \<Rightarrow> bool" where
  "underscoreOK s =
     (let s1 = (case s of [] \<Rightarrow> s | c # r \<Rightarrow> if c = CHR ''-'' \<or> c = CHR ''+'' then r else s)
      in if 2 \<le> length s1 \<and> s1 ! 0 = CHR ''0'' \<and>
            (lower (s1 ! 1) = CHR ''b'' \<or> lower (s1 ! 1) = CHR ''o'' \<or> lower (s1 ! 1) = CHR ''x'')
         then underscoreLoop (lower (s1 ! 1) = CHR ''x'') (CHR ''0'') (drop 2 s1)
         else underscoreLoop False (CHR ''^'') s1)"

text \<open>
  The exponent part of \<^verbatim>\<open>readFloat\<close>, behind the digits: the decimal point moved by the
  exponent, whether an underscore was read, and the text left.  \<open>None\<close> is a syntax error.
\<close>

definition readExponent :: "bool \<Rightarrow> int \<Rightarrow> string \<Rightarrow> (int \<times> bool \<times> string) option" where
  "readExponent hex dp s =
     (case s of
        [] \<Rightarrow> if hex then None else Some (dp, False, [])
      | c # r \<Rightarrow>
          if lower c = (if hex then CHR ''p'' else CHR ''e'') then
            (case r of
               [] \<Rightarrow> None
             | c1 # r1 \<Rightarrow>
                 let esign = (if c1 = CHR ''-'' then - 1 else 1 :: int);
                     s4 = (if c1 = CHR ''+'' \<or> c1 = CHR ''-'' then r1 else r)
                 in (case s4 of
                       [] \<Rightarrow> None
                     | c2 # r2 \<Rightarrow>
                         if \<not> isDigit c2 then None
                         else (case readExp 0 False s4 of
                                 (e, us, s5) \<Rightarrow> Some (dp + int e * esign, us, s5))))
          else if hex then None
          else Some (dp, False, s))"

text \<open>
  \<^verbatim>\<open>readFloat(s)\<close>: the sign, whether the mantissa is hexadecimal, the mantissa, the
  exponent (of 10, or of 2 for a hexadecimal mantissa) and the text that follows the
  number.  \<open>None\<close> is a syntax error.
\<close>

definition readFloat :: "string \<Rightarrow> (bool \<times> bool \<times> nat \<times> int \<times> string) option" where
  "readFloat s =
     (case s of
        [] \<Rightarrow> None
      | c0 # r0 \<Rightarrow>
          let neg = (c0 = CHR ''-'');
              s1 = (if c0 = CHR ''+'' \<or> c0 = CHR ''-'' then r0 else s);
              hex = (2 < length s1 \<and> s1 ! 0 = CHR ''0'' \<and> lower (s1 ! 1) = CHR ''x'');
              s2 = (if hex then drop 2 s1 else s1)
          in (case readDigits hex
                     \<lparr>rf_mant = 0, rf_nd = 0, rf_dp = 0, rf_sawdot = False,
                      rf_sawdigits = False, rf_underscores = False\<rparr> s2 of
                (st, s3) \<Rightarrow>
                  if \<not> rf_sawdigits st then None
                  else
                    let dp0 = (if rf_sawdot st then rf_dp st else int (rf_nd st));
                        dp1 = (if hex then dp0 * 4 else dp0);
                        nd1 = (if hex then int (rf_nd st) * 4 else int (rf_nd st))
                    in (case readExponent hex dp1 s3 of
                          None \<Rightarrow> None
                        | Some (dp2, us, s5) \<Rightarrow>
                            if (rf_underscores st \<or> us) \<and>
                               \<not> underscoreOK (take (length s - length s5) s)
                            then None
                            else Some (neg, hex, rf_mant st,
                                       if rf_mant st \<noteq> 0 then dp2 - nd1 else 0, s5))))"

text \<open>
  \<^verbatim>\<open>strconv.ParseFloat(s, 64)\<close> as the program uses it (\<^verbatim>\<open>conf, _ := ...\<close>): the value
  returned beside the error.  A malformed text gives 0, a number too large an infinity;
  otherwise the result is the float64 nearest to the number written.
\<close>

definition ParseFloat :: "string \<Rightarrow> float64" where
  "ParseFloat s =
     (case special s of
        Some (v, n) \<Rightarrow> if n = length s then v else f64_zero
      | None \<Rightarrow>
          (case readFloat s of
             None \<Rightarrow> f64_zero
           | Some (neg, hex, mant, ex, rest) \<Rightarrow>
               if rest \<noteq> [] then f64_zero
               else if 0 \<le> ex
               then round_f64 neg (mant * (if hex then 2 else 10) ^ nat ex) 1
               else round_f64 neg mant ((if hex then 2 else 10) ^ nat (- ex))))"

section \<open>Errors, the message hook and map iteration\<close>

text \<open>
  An error made by \<^verbatim>\<open>fmt.Errorf\<close>: the format and its string operands, or (for the
  verb \<^verbatim>\<open>%w\<close>) the format and the error it wraps.
\<close>

datatype go_error = Errorf string "string list" | Wrapf string go_error

text \<open>
  \<^verbatim>\<open>tpl.Format\<close> of the prompt component (an external library) is a parameter of the
  renderers: from the content of the system message to an error or the list of
  messages, \<open>None\<close> for a nil message and \<open>Some c\<close> for a message of content \<open>c\<close>.  The
  template used, one messages placeholder, hands the message back as it is:
\<close>

type_synonym format_hook = "string \<Rightarrow> go_error + string option list"

definition placeholder_format :: format_hook where
  "placeholder_format content = Inr [Some content]"

text \<open>
  A \<^verbatim>\<open>for k := range m\<close> of Go visits every key of the map once, in an order that is
  not specified and differs from one run to the next.  The order is an argument of the
  functions that iterate; \<open>range_order m ks\<close> says that \<open>ks\<close> is such an order.
\<close>

definition range_order :: "('k \<rightharpoonup> 'v) \<Rightarrow> 'k list \<Rightarrow> bool" where
  "range_order m ks \<longleftrightarrow> distinct ks \<and> set ks = dom m"

text \<open>
  \<^verbatim>\<open>strings.ToUpper\<close>: on a string of ASCII bytes the letters a to z are replaced; on any
  other string the letters are mapped by the Unicode tables, which \<open>U\<close> stands for.
\<close>

definition upperAZ :: "char \<Rightarrow> char" where
  "upperAZ c = (if (97::nat) \<le> of_char c \<and> (of_char c :: nat) \<le> 122
                then char_of ((of_char c :: nat) - 32) else c)"

definition ToUpper :: "(string \<Rightarrow> string) \<Rightarrow> string \<Rightarrow> string" where
  "ToUpper U s = (if list_all (\<lambda>c. (of_char c :: nat) < 128) s then map upperAZ s else U s)"

section \<open>Intent classification\<close>

record 'm IntentResult =
  Name :: string
  Confidence :: float64
  Priority :: float64
  Meta :: 'm

record 'm LanguageResult =
  Code :: string
  Confidence :: float64
  PrimaryFlag :: int
  Meta :: 'm

record 'm IntentOutput =
  Intents :: "'m IntentResult list"
  Languages :: "'m LanguageResult list"

text \<open>
  The library calls of \<^verbatim>\<open>ParseIntentOutput\<close>, whose errors the code drops:
  \<open>Sscanf_f s\<close> is the float64 that \<^verbatim>\<open>fmt.Sscanf(s, "%f", &f)\<close> leaves in \<^verbatim>\<open>f\<close> (the
  function \<^verbatim>\<open>parseFloat\<close> of the source), \<open>Unmarshal s\<close> the map that
  \<^verbatim>\<open>json.Unmarshal([]byte(s), &meta)\<close> leaves in a new \<^verbatim>\<open>meta\<close>, and \<open>to_int\<close> the
  conversion \<^verbatim>\<open>int(f)\<close>.  None of them panics.
\<close>

record 'm intent_lib =
  Sscanf_f :: "string \<Rightarrow> float64"
  Unmarshal :: "string \<Rightarrow> 'm"
  to_int :: "float64 \<Rightarrow> int"

definition parseFloat :: "'m intent_lib \<Rightarrow> string \<Rightarrow> float64" where
  "parseFloat lib s = Sscanf_f lib s"

definition parse_intent_line ::
    "'m intent_lib \<Rightarrow> 'm IntentOutput \<Rightarrow> string \<Rightarrow> panic + 'm IntentOutput" where
  "parse_intent_line lib out line0 =
     (let line = TrimSpace line0
      in if line = [] \<or> line = ''<|COMPLETE|>'' then Inr out
         else
           let fields = Split line ''<||>''
           in if length fields < 5 then Inr out
              else
                bind (index fields 0) (\<lambda>prefix.
                  if prefix = ''(intent'' then
                    bind (index fields 2) (\<lambda>f2.
                    bind (index fields 3) (\<lambda>f3.
                    bind (index fields 4) (\<lambda>f4.
                    bind (index fields 1) (\<lambda>f1.
                      Inr (out\<lparr>Intents := Intents out @
                             [\<lparr>Name = f1, IntentResult.Confidence = parseFloat lib f2,
                               Priority = parseFloat lib f3,
                               IntentResult.Meta = Unmarshal lib f4\<rparr>]\<rparr>)))))
                  else if prefix = ''(language'' then
                    bind (index fields 2) (\<lambda>f2.
                    bind (index fields 3) (\<lambda>f3.
                    bind (index fields 4) (\<lambda>f4.
                    bind (index fields 1) (\<lambda>f1.
                      Inr (out\<lparr>Languages := Languages out @
                             [\<lparr>Code = f1, LanguageResult.Confidence = parseFloat lib f2,
                               PrimaryFlag = to_int lib (parseFloat lib f3),
                               LanguageResult.Meta = Unmarshal lib f4\<rparr>]\<rparr>)))))
                  else Inr out))"

fun parse_intent_lines ::
    "'m intent_lib \<Rightarrow> 'm IntentOutput \<Rightarrow> string list \<Rightarrow> panic + 'm IntentOutput" where
  "parse_intent_lines lib out [] = Inr out"
| "parse_intent_lines lib out (l # ls) =
     bind (parse_intent_line lib out l) (\<lambda>out'. parse_intent_lines lib out' ls)"

definition ParseIntentOutput ::
    "'m intent_lib \<Rightarrow> string \<Rightarrow> panic + ('m IntentOutput \<times> go_error option)" where
  "ParseIntentOutput lib raw =
     bind (parse_intent_lines lib \<lparr>Intents = [], Languages = []\<rparr> (Split raw ''##''))
       (\<lambda>out. Inr (out, None))"

text \<open>
  \<^verbatim>\<open>RenderintentSystem\<close>; the template \<^verbatim>\<open>intent_template.txt\<close> is embedded at build
  time and is an argument here.  \<open>None\<close> is the nil configuration.
\<close>

record intentModelConfig =
  IntentList :: string

definition first_message :: "string \<Rightarrow> go_error + string option list \<Rightarrow> go_error + string" where
  "first_message what r =
     (case r of
        Inl err \<Rightarrow> Inl (Wrapf (what @ '' prompt callbacks: %w'') err)
      | Inr msgs \<Rightarrow>
          (case msgs of
             [] \<Rightarrow> Inl (Errorf (what @ '' prompt callbacks: empty result'') [])
           | None # rest \<Rightarrow> Inl (Errorf (what @ '' prompt callbacks: empty result'') [])
           | Some content # rest \<Rightarrow> Inr content))"

definition RenderintentSystem ::
    "format_hook \<Rightarrow> string \<Rightarrow> intentModelConfig option \<Rightarrow> go_error + string" where
  "RenderintentSystem Format intentSystemTemplate intentConfig =
     (case intentConfig of
        None \<Rightarrow> Inl (Errorf ''intent config is nil'' [])
      | Some cfg \<Rightarrow>
          let content = Replace [(''{TD}'', ''<||>''), (''{RD}'', ''##''),
                                 (''{CD}'', ''<|COMPLETE|>''),
                                 (''{intent_list}'', IntentList cfg)] intentSystemTemplate
          in first_message ''intent'' (Format content))"

section \<open>Entity extraction: the prompt\<close>

record entityModelInput =
  IntentName :: string
  RequiredKeys :: "string list"
  AllowedEntities :: "string list"
  UserMessage :: string
  Language :: string

text \<open>The set \<^verbatim>\<open>uniq\<close> of the allowed entities, trimmed: a map to the empty struct.\<close>

fun uniq_loop :: "string list \<Rightarrow> (string \<rightharpoonup> unit) \<Rightarrow> (string \<rightharpoonup> unit)" where
  "uniq_loop [] uniq = uniq"
| "uniq_loop (e # es) uniq = uniq_loop es (uniq(TrimSpace e \<mapsto> ()))"

definition uniq_of :: "entityModelInput \<Rightarrow> (string \<rightharpoonup> unit)" where
  "uniq_of inp = uniq_loop ([] @ AllowedEntities inp) Map.empty"

text \<open>
  \<^verbatim>\<open>allowedCSV\<close>, for the order \<open>ks\<close> in which \<^verbatim>\<open>range uniq\<close> gives the keys.
\<close>

definition allowedCSV :: "string list \<Rightarrow> string" where
  "allowedCSV ks = Join ks '',''"

definition entity_content :: "string \<Rightarrow> string list \<Rightarrow> entityModelInput \<Rightarrow> string" where
  "entity_content entitySystemTemplate ks inp =
     Replace [(''{{intent_name}}'', IntentName inp),
              (''{{required_keys_csv}}'', Join (RequiredKeys inp) '',''),
              (''{{allowed_entities_csv}}'', allowedCSV ks),
              (''{{user_message}}'', UserMessage inp),
              (''{{language}}'', Language inp)] entitySystemTemplate"

text \<open>
  \<^verbatim>\<open>RenderEntitySystem\<close>.  The template \<^verbatim>\<open>entity_template.txt\<close> is embedded at build time
  and is an argument here; \<open>ks\<close> is the order of \<^verbatim>\<open>range uniq\<close>, a \<open>range_order\<close> of
  \<open>uniq_of inp\<close>; \<open>None\<close> is the nil input.
\<close>

definition RenderEntitySystem ::
    "format_hook \<Rightarrow> string \<Rightarrow> string list \<Rightarrow> entityModelInput option \<Rightarrow> go_error + string" where
  "RenderEntitySystem Format entitySystemTemplate ks input =
     (case input of
        None \<Rightarrow> Inl (Errorf ''entity input is nil'' [])
      | Some inp \<Rightarrow>
          first_message ''entity'' (Format (entity_content entitySystemTemplate ks inp)))"

section \<open>Entity extraction: the data\<close>

record EntitySpan =
  Type :: string
  Raw :: string
  Start :: int
  End :: int
  Confidence :: float64

record EntityOutput =
  Entities :: "EntitySpan list"
  Missing :: "string list"
  Language :: string

text \<open>\<^verbatim>\<open>EntitiesByType\<close>: the entities of a type, in their order.\<close>

fun EntitiesByType_loop :: "EntitySpan list \<Rightarrow> string \<Rightarrow> EntitySpan list \<Rightarrow> EntitySpan list" where
  "EntitiesByType_loop [] t out = out"
| "EntitiesByType_loop (e # es) t out =
     EntitiesByType_loop es t (if Type e = t then out @ [e] else out)"

definition EntitiesByType :: "EntityOutput \<Rightarrow> string \<Rightarrow> EntitySpan list" where
  "EntitiesByType out t = EntitiesByType_loop (Entities out) t []"

section \<open>MissingKeys\<close>

text \<open>
  The first loop of \<^verbatim>\<open>MissingKeys\<close> fills the map \<^verbatim>\<open>found\<close>; reading a key that is not
  in a \<^verbatim>\<open>map[string]bool\<close> gives \<^verbatim>\<open>false\<close>.
\<close>

definition lookup_bool :: "(string \<rightharpoonup> bool) \<Rightarrow> string \<Rightarrow> bool" where
  "lookup_bool m k = (case m k of None \<Rightarrow> False | Some b \<Rightarrow> b)"

fun mark_found :: "EntitySpan list \<Rightarrow> (string \<rightharpoonup> bool) \<Rightarrow> (string \<rightharpoonup> bool)" where
  "mark_found [] found = found"
| "mark_found (e # es) found =
     mark_found es
       (if f64_gt (Confidence e) f64_half \<and> 0 \<le> Start e
        then found(Type e \<mapsto> True) else found)"

fun collect_missing :: "string list \<Rightarrow> (string \<rightharpoonup> bool) \<Rightarrow> string list \<Rightarrow> string list" where
  "collect_missing [] found miss = miss"
| "collect_missing (k # ks) found miss =
     collect_missing ks found (if \<not> lookup_bool found k then miss @ [k] else miss)"

definition MissingKeys :: "EntityOutput \<Rightarrow> string list \<Rightarrow> string list" where
  "MissingKeys out required = collect_missing required (mark_found (Entities out) Map.empty) []"

section \<open>ParseEntityOutput\<close>

text \<open>The body of the loop over the records: one record, and the output so far.\<close>

definition parse_entity_line :: "EntityOutput \<Rightarrow> string \<Rightarrow> panic + EntityOutput" where
  "parse_entity_line out line0 =
     (let line = TrimSpace line0
      in if line = [] \<or> line = ''<|COMPLETE|>'' then Inr out
         else
           let fields = Split line ''<||>''
           in if length fields = 0 then Inr out
              else
                bind (index fields 0) (\<lambda>tag.
                  if HasPrefix tag ''(entity'' then
                    (if length fields < 6 then Inr out
                     else
                       bind (index fields 3) (\<lambda>f3.
                       bind (index fields 4) (\<lambda>f4.
                       bind (index fields 5) (\<lambda>f5.
                       bind (index fields 1) (\<lambda>f1.
                       bind (index fields 2) (\<lambda>f2.
                         Inr (out\<lparr>Entities := Entities out @
                                [\<lparr>Type = f1, Raw = f2, Start = Atoi f3, End = Atoi f4,
                                  Confidence = ParseFloat f5\<rparr>]\<rparr>)))))))
                  else if HasPrefix tag ''(missing'' then
                    (if length fields < 2 then Inr out
                     else bind (index fields 1) (\<lambda>f1.
                            Inr (out\<lparr>Missing := Missing out @ [f1]\<rparr>)))
                  else if HasPrefix tag ''(language'' then
                    (if length fields < 4 then Inr out
                     else bind (index fields 1) (\<lambda>f1. Inr (out\<lparr>Language := f1\<rparr>)))
                  else Inr out))"

fun parse_entity_lines :: "EntityOutput \<Rightarrow> string list \<Rightarrow> panic + EntityOutput" where
  "parse_entity_lines out [] = Inr out"
| "parse_entity_lines out (l # ls) =
     bind (parse_entity_line out l) (\<lambda>out'. parse_entity_lines out' ls)"

text \<open>
  \<^verbatim>\<open>ParseEntityOutput\<close> returns a pointer to the output and an error; the error is
  \<open>None\<close> for \<^verbatim>\<open>nil\<close>.
\<close>

definition ParseEntityOutput :: "string \<Rightarrow> panic + (EntityOutput \<times> go_error option)" where
  "ParseEntityOutput raw =
     bind (parse_entity_lines \<lparr>Entities = [], Missing = [], Language = []\<rparr> (Split raw ''##''))
       (\<lambda>out. Inr (out, None))"

section \<open>RequiredKeysForIntent\<close>

text \<open>
  The environment of the process is a map from names to values; \<^verbatim>\<open>os.Getenv\<close> gives the
  empty string for a name that is not set.
\<close>

definition Getenv :: "(string \<rightharpoonup> string) \<Rightarrow> string \<Rightarrow> string" where
  "Getenv env k = (case env k of None \<Rightarrow> [] | Some v \<Rightarrow> v)"

definition envKey :: "(string \<Rightarrow> string) \<Rightarrow> string \<Rightarrow> string" where
  "envKey U intentName =
     ''NLU_REQUIRED_'' @ ToUpper U (Replace [('' '', ''_''), (''-'', ''_'')] (TrimSpace intentName))"

fun keys_loop :: "string list \<Rightarrow> string list \<Rightarrow> string list" where
  "keys_loop [] keys = keys"
| "keys_loop (part # parts) keys =
     keys_loop parts (if TrimSpace part \<noteq> [] then keys @ [TrimSpace part] else keys)"

text \<open>
  \<^verbatim>\<open>RequiredKeysForIntent\<close>; a nil slice and an empty slice are both the empty list.
\<close>

definition RequiredKeysForIntent ::
    "(string \<Rightarrow> string) \<Rightarrow> (string \<rightharpoonup> string) \<Rightarrow> string \<Rightarrow> string list" where
  "RequiredKeysForIntent U env intentName =
     (if intentName = [] then []
      else
        let val = Getenv env (envKey U intentName)
        in if val = [] then []
           else keys_loop (Split val '','') [])"

section \<open>The persona prompt\<close>

text \<open>
  \<^verbatim>\<open>renderSystemPrompt\<close> of \<^verbatim>\<open>main.go\<close> reads four constants of the package; they are the
  fields of \<open>personaConfig\<close>, and \<open>personaDefaults\<close> has the values of the source.
\<close>

record personaConfig =
  brandNameDefault :: string
  channelDefault :: string
  targetSegmentsDefault :: string
  mbtiTypeDefault :: string

definition personaDefaults :: personaConfig where
  "personaDefaults =
     \<lparr>brandNameDefault = ''Chative Brand'',
      channelDefault = ''Online Storefront'',
      targetSegmentsDefault = ''Young Professionals seeking lifestyle upgrades'',
      mbtiTypeDefault = ''EXPERT''\<rparr>"

text \<open>The loop over the map \<^verbatim>\<open>replacements\<close>, in the order \<open>ks\<close> of its keys.\<close>

fun replace_loop :: "(string \<rightharpoonup> string) \<Rightarrow> string list \<Rightarrow> string \<Rightarrow> string" where
  "replace_loop replacements [] result = result"
| "replace_loop replacements (placeholder # ks) result =
     replace_loop replacements ks
       (case replacements placeholder of
          None \<Rightarrow> result
        | Some v \<Rightarrow> ReplaceAll result placeholder v)"

definition persona_replacements ::
    "string \<Rightarrow> string \<Rightarrow> string \<Rightarrow> string \<Rightarrow> string \<Rightarrow> (string \<rightharpoonup> string)" where
  "persona_replacements brandName channel targetSegments mbtiType mbtiDescription =
     [''{{BRAND_NAME}}'' \<mapsto> brandName,
      ''{{CHANNEL}}'' \<mapsto> channel,
      ''{{TARGET_SEGMENTS}}'' \<mapsto> targetSegments,
      ''{{MBTI_TYPE}}'' \<mapsto> mbtiType,
      ''{{MBTI}}'' \<mapsto> TrimSpace mbtiDescription]"

text \<open>
  \<^verbatim>\<open>renderSystemPrompt\<close>.  \<open>loadMBTIProfiles\<close> is the result of decoding the embedded file
  \<^verbatim>\<open>mbti.json\<close> (an error, or the map of the profiles), \<open>ks\<close> the order of the loop over
  \<^verbatim>\<open>replacements\<close>, and \<open>U\<close> the upper case of strings that are not ASCII.
\<close>

definition renderSystemPrompt_with ::
    "personaConfig \<Rightarrow> (string \<Rightarrow> string) \<Rightarrow> go_error + (string \<rightharpoonup> string) \<Rightarrow>
     string list \<Rightarrow> string \<Rightarrow> go_error + string" where
  "renderSystemPrompt_with cfg U loadMBTIProfiles ks template =
     (let brandName = TrimSpace (brandNameDefault cfg);
          channel = TrimSpace (channelDefault cfg);
          targetSegments = TrimSpace (targetSegmentsDefault cfg);
          mbtiType = ToUpper U (TrimSpace (mbtiTypeDefault cfg))
      in if brandName = [] \<or> channel = [] \<or> targetSegments = [] \<or> mbtiType = []
         then Inl (Errorf ''system prompt configuration is incomplete'' [])
         else
           (case loadMBTIProfiles of
              Inl err \<Rightarrow> Inl err
            | Inr profiles \<Rightarrow>
                (case profiles mbtiType of
                   None \<Rightarrow> Inl (Errorf ''mbti type %q not found in profiles'' [mbtiType])
                 | Some mbtiDescription \<Rightarrow>
                     let result = replace_loop
                           (persona_replacements brandName channel targetSegments mbtiType
                              mbtiDescription) ks template
                     in if Contains result ''{{''
                        then Inl (Errorf ''system prompt still contains unresolved placeholders'' [])
                        else Inr result)))"

definition renderSystemPrompt ::
    "(string \<Rightarrow> string) \<Rightarrow> go_error + (string \<rightharpoonup> string) \<Rightarrow> string list \<Rightarrow> string \<Rightarrow>
     go_error + string" where
  "renderSystemPrompt = renderSystemPrompt_with personaDefaults"

section \<open>Records of the entity grammar\<close>

text \<open>
  The fields of a record, as the loop of \<^verbatim>\<open>ParseEntityOutput\<close> computes them (the record
  trimmed, then split), and its tag \<^verbatim>\<open>fields[0]\<close>.
\<close>

definition record_fields :: "string \<Rightarrow> string list" where
  "record_fields l = Split (TrimSpace l) ''<||>''"

definition record_tag :: "string \<Rightarrow> string" where
  "record_tag l = hd (record_fields l)"

text \<open>A record that the case \<^verbatim>\<open>(language\<close> of the switch accepts.\<close>

definition is_language_record :: "string \<Rightarrow> bool" where
  "is_language_record l \<longleftrightarrow>
     HasPrefix (record_tag l) ''(language'' \<and> 4 \<le> length (record_fields l)"



section \<open>Facts about the library functions\<close>

lemmas trim_defs = TrimSpace_def TrimLeft_def TrimRight_def unicodeSpaces_def

lemmas float_defs = ParseFloat_def special_def specialInf_def readFloat_def readExponent_def
  underscoreOK_def isDigit_def digitVal_def lower_def isHexLetter_def hexVal_def lowerAZ_def
  round_f64_def bitlen.simps Let_def f64_zero_def

lemmas atoi_defs = Atoi_def ParseUint_def maxUint64_def isDigit_def digitVal_def Let_def

lemma Split_not_Nil: "Split s sep \<noteq> []"
  by (cases s) (auto split: list.splits)



lemma index_in_range: "i < length xs \<Longrightarrow> index xs i = Inr (xs ! i)"
  by (simp add: index_def)

lemma index_0_Split: "index (Split s sep) 0 = Inr (hd (Split s sep))"
  using Split_not_Nil [of s sep] by (cases "Split s sep") (simp_all add: index_def)

lemma bind_Inr: "bind (Inr x) f = f x"
  by (simp add: bind_def)

lemma TrimSpace_Nil: "TrimSpace [] = []"
  by (simp add: trim_defs)


















text \<open>\<open>Contains\<close> is the substring relation.\<close>

lemma Contains_iff: "Contains s sub \<longleftrightarrow> (\<exists>p q. s = p @ sub @ q)"
proof (induction s)
  case Nil
  show ?case by simp
next
  case (Cons c cs)
  show ?case
  proof
    assume "Contains (c # cs) sub"
    then consider "prefix sub (c # cs)" | "Contains cs sub" by auto
    then show "\<exists>p q. c # cs = p @ sub @ q"
    proof cases
      case 1
      then obtain q where "c # cs = sub @ q" by (auto simp: prefix_def)
      then have "c # cs = [] @ sub @ q" by simp
      then show ?thesis by blast
    next
      case 2
      then obtain p q where "cs = p @ sub @ q" using Cons.IH by blast
      then have "c # cs = (c # p) @ sub @ q" by simp
      then show ?thesis by blast
    qed
  next
    assume "\<exists>p q. c # cs = p @ sub @ q"
    then obtain p q where pq: "c # cs = p @ sub @ q" by blast
    show "Contains (c # cs) sub"
    proof (cases p)
      case Nil
      with pq have "prefix sub (c # cs)" by (simp add: prefix_def)
      then show ?thesis by simp
    next
      case (Cons a p')
      with pq have "cs = p' @ sub @ q" by simp
      then have "Contains cs sub" using Cons.IH by blast
      then show ?thesis by simp
    qed
  qed
qed

text \<open>The replacer of \<^verbatim>\<open>RequiredKeysForIntent\<close> maps byte by byte.\<close>

lemma Replace_space_hyphen:
  "Replace [('' '', ''_''), (''-'', ''_'')] s
     = map (\<lambda>c. if c = CHR '' '' \<or> c = CHR ''-'' then CHR ''_'' else c) s"
  by (induction s) auto


lemma first_message_placeholder: "first_message what (placeholder_format c) = Inr c"
  by (simp add: first_message_def placeholder_format_def)

lemma count_list_distinct: "distinct xs \<Longrightarrow> x \<in> set xs \<Longrightarrow> count_list xs x = 1"
  by (induction xs) auto

subsection \<open>Numbers of the examples\<close>

lemma ParseFloat_092: "ParseFloat ''0.92'' = round_f64 False 92 100"
  by (simp add: float_defs)

lemma ParseFloat_04: "ParseFloat ''0.4'' = round_f64 False 4 10"
  by (simp add: float_defs)


lemma round_092: "round_f64 False 92 100 = Finite False 8286623314361713 (- 53)"
  by (simp add: float_defs)

lemma round_04: "round_f64 False 4 10 = Finite False 7205759403792794 (- 54)"
  by (simp add: float_defs)

lemma Atoi_examples:
  "Atoi ''0'' = 0" "Atoi ''1'' = 1" "Atoi ''10'' = 10" "Atoi ''15'' = 15"
  "Atoi ''30'' = 30" "Atoi ''35'' = 35"
  by (simp_all add: atoi_defs)

section \<open>The slot-filling validator\<close>

lemma lookup_mark_found:
  "lookup_bool (mark_found es found) k \<longleftrightarrow>
     lookup_bool found k \<or>
     (\<exists>e\<in>set es. Type e = k \<and> f64_gt (Confidence e) f64_half \<and> 0 \<le> Start e)"
  by (induction es arbitrary: found) (auto simp: lookup_bool_def)

lemma collect_missing_filter:
  "collect_missing ks found miss = miss @ filter (\<lambda>k. \<not> lookup_bool found k) ks"
  by (induction ks arbitrary: miss) auto

lemma lookup_bool_empty: "lookup_bool Map.empty k = False"
  by (simp add: lookup_bool_def)

text \<open>
  Claim C1.  For every entity list and every list of required keys, \<open>MissingKeys\<close>
  returns the required keys for which no entity of exactly that type has a confidence
  greater than 0.5 and a start that is not negative, in the order of the required list.
  The comparison is strict and false for a NaN, so an entity of confidence 0.5, and an
  entity of negative start, do not count.
\<close>

theorem MissingKeys_exact:
  "MissingKeys out required =
     filter (\<lambda>k. \<not> (\<exists>e\<in>set (Entities out).
                        Type e = k \<and> f64_gt (Confidence e) f64_half \<and> 0 \<le> Start e))
       required \<and>
   \<not> f64_gt f64_half f64_half"
  by (simp add: MissingKeys_def collect_missing_filter lookup_mark_found lookup_bool_empty
      f64_half_def)

text \<open>
  Three entities: a product of confidence 0.92, a price of confidence exactly 0.5, and a
  brand of confidence 0.92 whose start is -1.  Only the product is found.
\<close>

theorem MissingKeys_exact_witness:
  "MissingKeys
     \<lparr>Entities =
        [\<lparr>Type = ''product'', Raw = ''iPhone'', Start = 10, End = 15,
          Confidence = Finite False 8286623314361713 (- 53)\<rparr>,
         \<lparr>Type = ''price'', Raw = ''20000'', Start = 30, End = 35, Confidence = f64_half\<rparr>,
         \<lparr>Type = ''brand'', Raw = ''Apple'', Start = - 1, End = 4,
          Confidence = Finite False 8286623314361713 (- 53)\<rparr>],
      Missing = [], Language = []\<rparr>
     [''brand'', ''product'', ''price'', ''color'']
   = [''brand'', ''price'', ''color'']"
  by (simp add: MissingKeys_exact f64_half_def scaled_def)

section \<open>The parsers return\<close>

lemma parse_entity_line_total: "\<exists>out'. parse_entity_line out l = Inr out'"
  by (simp add: parse_entity_line_def Let_def bind_def index_in_range Split_not_Nil)

lemma parse_entity_lines_total: "\<exists>out'. parse_entity_lines out ls = Inr out'"
proof (induction ls arbitrary: out)
  case Nil
  show ?case by simp
next
  case (Cons l ls)
  obtain out1 where "parse_entity_line out l = Inr out1"
    using parse_entity_line_total by blast
  then show ?case using Cons.IH [of out1] by (simp add: bind_Inr)
qed

lemma ParseEntityOutput_total: "\<exists>out. ParseEntityOutput raw = Inr (out, None)"
proof -
  obtain out where "parse_entity_lines \<lparr>Entities = [], Missing = [], Language = []\<rparr>
      (Split raw ''##'') = Inr out"
    using parse_entity_lines_total by blast
  then show ?thesis by (simp add: ParseEntityOutput_def bind_Inr)
qed

lemma parse_intent_line_total: "\<exists>out'. parse_intent_line lib out l = Inr out'"
  by (simp add: parse_intent_line_def Let_def bind_def index_in_range Split_not_Nil)

lemma parse_intent_lines_total: "\<exists>out'. parse_intent_lines lib out ls = Inr out'"
proof (induction ls arbitrary: out)
  case Nil
  show ?case by simp
next
  case (Cons l ls)
  obtain out1 where "parse_intent_line lib out l = Inr out1"
    using parse_intent_line_total by blast
  then show ?case using Cons.IH [of out1] by (simp add: bind_Inr)
qed

lemma ParseIntentOutput_total: "\<exists>out. ParseIntentOutput lib raw = Inr (out, None)"
proof -
  obtain out where "parse_intent_lines lib \<lparr>Intents = [], Languages = []\<rparr>
      (Split raw ''##'') = Inr out"
    using parse_intent_lines_total by blast
  then show ?thesis by (simp add: ParseIntentOutput_def bind_Inr)
qed

text \<open>
  Claim C2.  For every raw text, \<open>ParseEntityOutput\<close> and \<open>ParseIntentOutput\<close> return an
  output and the nil error: no index of the loop is out of range, whatever the text, and
  both functions are total, the loops running once over the records of the text.
\<close>

theorem parsers_never_fail:
  "(\<exists>out. ParseEntityOutput raw = Inr (out, None)) \<and>
   (\<exists>out. ParseIntentOutput lib raw = Inr (out, None))"
  using ParseEntityOutput_total ParseIntentOutput_total by blast

text \<open>A truncated record and garbled delimiters.\<close>

theorem parsers_never_fail_witness:
  "(\<exists>out. ParseEntityOutput ''(entity<||>product<||>iPh#(language<|>##<||>'' = Inr (out, None)) \<and>
   (\<exists>out. ParseIntentOutput \<lparr>Sscanf_f = ParseFloat, Unmarshal = (\<lambda>s. s), to_int = (\<lambda>f. 0)\<rparr>
             ''(intent<||>greet<||>0.9##<||><||><||><||>'' = Inr (out, None))"
  using parsers_never_fail [of "''(entity<||>product<||>iPh#(language<|>##<||>''"]
    parsers_never_fail [of "''(intent<||>greet<||>0.9##<||><||><||><||>''"
      "\<lparr>Sscanf_f = ParseFloat, Unmarshal = (\<lambda>s. s), to_int = (\<lambda>f. 0)\<rparr>"]
  by blast

section \<open>The records of the entity parser\<close>

text \<open>What one record does to the output, by the kind of the record.\<close>

lemma parse_entity_line_cases:
  "parse_entity_line out l =
     (if TrimSpace l = [] \<or> TrimSpace l = ''<|COMPLETE|>'' then Inr out
      else if HasPrefix (record_tag l) ''(entity'' then
        (if length (record_fields l) < 6 then Inr out
         else Inr (out\<lparr>Entities := Entities out @
                [\<lparr>Type = record_fields l ! 1, Raw = record_fields l ! 2,
                  Start = Atoi (record_fields l ! 3), End = Atoi (record_fields l ! 4),
                  Confidence = ParseFloat (record_fields l ! 5)\<rparr>]\<rparr>))
      else if HasPrefix (record_tag l) ''(missing'' then
        (if length (record_fields l) < 2 then Inr out
         else Inr (out\<lparr>Missing := Missing out @ [record_fields l ! 1]\<rparr>))
      else if HasPrefix (record_tag l) ''(language'' then
        (if length (record_fields l) < 4 then Inr out
         else Inr (out\<lparr>Language := record_fields l ! 1\<rparr>))
      else Inr out)"
  by (simp add: parse_entity_line_def Let_def record_fields_def record_tag_def
      index_0_Split bind_Inr index_in_range Split_not_Nil)

lemma parse_entity_lines_append:
  "parse_entity_lines out (xs @ ys) =
     bind (parse_entity_lines out xs) (\<lambda>out'. parse_entity_lines out' ys)"
proof (induction xs arbitrary: out)
  case Nil
  show ?case by (simp add: bind_Inr)
next
  case (Cons x xs)
  obtain out1 where "parse_entity_line out x = Inr out1"
    using parse_entity_line_total by blast
  then show ?case using Cons.IH [of out1] by (simp add: bind_Inr)
qed

text \<open>No tag begins with two of the three known tags.\<close>

lemma prefix_entity_not_others:
  assumes "prefix ''(entity'' t"
  shows "\<not> prefix ''(missing'' t" and "\<not> prefix ''(language'' t"
proof -
  show "\<not> prefix ''(missing'' t"
  proof
    assume "prefix ''(missing'' t"
    then have "prefix ''(entity'' ''(missing'' \<or> prefix ''(missing'' ''(entity''"
      using assms prefix_same_cases by blast
    then show False by simp
  qed
  show "\<not> prefix ''(language'' t"
  proof
    assume "prefix ''(language'' t"
    then have "prefix ''(entity'' ''(language'' \<or> prefix ''(language'' ''(entity''"
      using assms prefix_same_cases by blast
    then show False by simp
  qed
qed

lemma prefix_missing_not_language:
  assumes "prefix ''(missing'' t"
  shows "\<not> prefix ''(language'' t"
proof
  assume "prefix ''(language'' t"
  then have "prefix ''(missing'' ''(language'' \<or> prefix ''(language'' ''(missing''"
    using assms prefix_same_cases by blast
  then show False by simp
qed

subsection \<open>The example of the specification\<close>

lemma example_records:
  "Split ''(entity<||>product<||>iPhone<||>10<||>15<||>0.92##(entity<||>price<||>20000<||>30<||>35<||>0.4##(missing<||>brand##<|COMPLETE|>'' ''##''
   = [''(entity<||>product<||>iPhone<||>10<||>15<||>0.92'',
      ''(entity<||>price<||>20000<||>30<||>35<||>0.4'',
      ''(missing<||>brand'', ''<|COMPLETE|>'']"
  by simp

lemma example_record_1:
  "parse_entity_line out ''(entity<||>product<||>iPhone<||>10<||>15<||>0.92''
   = Inr (out\<lparr>Entities := Entities out @
            [\<lparr>Type = ''product'', Raw = ''iPhone'', Start = 10, End = 15,
              Confidence = round_f64 False 92 100\<rparr>]\<rparr>)"
  by (simp add: parse_entity_line_def trim_defs HasPrefix_def bind_def index_def
      Atoi_examples ParseFloat_092)

lemma example_record_2:
  "parse_entity_line out ''(entity<||>price<||>20000<||>30<||>35<||>0.4''
   = Inr (out\<lparr>Entities := Entities out @
            [\<lparr>Type = ''price'', Raw = ''20000'', Start = 30, End = 35,
              Confidence = round_f64 False 4 10\<rparr>]\<rparr>)"
  by (simp add: parse_entity_line_def trim_defs HasPrefix_def bind_def index_def
      Atoi_examples ParseFloat_04)

lemma example_record_3:
  "parse_entity_line out ''(missing<||>brand'' = Inr (out\<lparr>Missing := Missing out @ [''brand'']\<rparr>)"
  by (simp add: parse_entity_line_def trim_defs HasPrefix_def bind_def index_def)

lemma example_record_4: "parse_entity_line out ''<|COMPLETE|>'' = Inr out"
  by (simp add: parse_entity_line_def trim_defs)

lemma gt_092: "f64_gt (round_f64 False 92 100) f64_half"
  by (simp add: round_092 f64_half_def scaled_def)

lemma not_gt_04: "\<not> f64_gt (round_f64 False 4 10) f64_half"
  by (simp add: round_04 f64_half_def scaled_def)

text \<open>
  Claim C3.  The example of the specification: the text gives two entities, a product
  (start 10, confidence the float64 nearest to 0.92) and a price (start 30, confidence
  the float64 nearest to 0.4), and the missing key brand reported by the model; with the
  required keys product, price and brand, \<open>MissingKeys\<close> gives price and brand, the price
  having a confidence that is not greater than 0.5.
\<close>

theorem spec_example:
  "ParseEntityOutput
     ''(entity<||>product<||>iPhone<||>10<||>15<||>0.92##(entity<||>price<||>20000<||>30<||>35<||>0.4##(missing<||>brand##<|COMPLETE|>''
   = Inr (\<lparr>Entities =
             [\<lparr>Type = ''product'', Raw = ''iPhone'', Start = 10, End = 15,
               Confidence = round_f64 False 92 100\<rparr>,
              \<lparr>Type = ''price'', Raw = ''20000'', Start = 30, End = 35,
               Confidence = round_f64 False 4 10\<rparr>],
            Missing = [''brand''], Language = []\<rparr>, None) \<and>
   MissingKeys
     \<lparr>Entities =
        [\<lparr>Type = ''product'', Raw = ''iPhone'', Start = 10, End = 15,
          Confidence = round_f64 False 92 100\<rparr>,
         \<lparr>Type = ''price'', Raw = ''20000'', Start = 30, End = 35,
          Confidence = round_f64 False 4 10\<rparr>],
      Missing = [''brand''], Language = []\<rparr>
     [''product'', ''price'', ''brand'']
   = [''price'', ''brand''] \<and>
   f64_gt (round_f64 False 92 100) f64_half \<and>
   \<not> f64_gt (round_f64 False 4 10) f64_half"
proof -
  have "ParseEntityOutput
     ''(entity<||>product<||>iPhone<||>10<||>15<||>0.92##(entity<||>price<||>20000<||>30<||>35<||>0.4##(missing<||>brand##<|COMPLETE|>''
   = Inr (\<lparr>Entities =
             [\<lparr>Type = ''product'', Raw = ''iPhone'', Start = 10, End = 15,
               Confidence = round_f64 False 92 100\<rparr>,
              \<lparr>Type = ''price'', Raw = ''20000'', Start = 30, End = 35,
               Confidence = round_f64 False 4 10\<rparr>],
            Missing = [''brand''], Language = []\<rparr>, None)"
    unfolding ParseEntityOutput_def example_records
    by (simp add: example_record_1 example_record_2 example_record_3 example_record_4 bind_Inr)
  moreover have "MissingKeys
     \<lparr>Entities =
        [\<lparr>Type = ''product'', Raw = ''iPhone'', Start = 10, End = 15,
          Confidence = round_f64 False 92 100\<rparr>,
         \<lparr>Type = ''price'', Raw = ''20000'', Start = 30, End = 35,
          Confidence = round_f64 False 4 10\<rparr>],
      Missing = [''brand''], Language = []\<rparr>
     [''product'', ''price'', ''brand'']
   = [''price'', ''brand'']"
    by (simp add: MissingKeys_def lookup_bool_def gt_092 not_gt_04)
  ultimately show ?thesis using gt_092 not_gt_04 by blast
qed

subsection \<open>Records that are dropped\<close>

lemma dropped_record:
  assumes "(\<not> HasPrefix (record_tag l) ''(entity'' \<and> \<not> HasPrefix (record_tag l) ''(missing'' \<and>
            \<not> HasPrefix (record_tag l) ''(language'') \<or>
           (HasPrefix (record_tag l) ''(entity'' \<and> length (record_fields l) < 6)"
  shows "parse_entity_line out l = Inr out"
  using assms by (auto simp: parse_entity_line_cases)

lemma parse_entity_lines_drop:
  assumes "\<And>out. parse_entity_line out l = Inr out"
  shows "parse_entity_lines out (before @ l # after) = parse_entity_lines out (before @ after)"
  by (simp add: parse_entity_lines_append assms bind_Inr)

text \<open>
  Claim C7.  A record whose tag begins with none of the known tags, and a record of tag
  \<^verbatim>\<open>(entity\<close> with fewer than 6 fields, leave the output as it is, whatever was parsed
  before; the text with the record parses to the same result as the text without it (the
  records before and after it count as before), and that result comes with no error.
\<close>

theorem dropped_records_skipped:
  assumes "(\<not> HasPrefix (record_tag l) ''(entity'' \<and> \<not> HasPrefix (record_tag l) ''(missing'' \<and>
            \<not> HasPrefix (record_tag l) ''(language'') \<or>
           (HasPrefix (record_tag l) ''(entity'' \<and> length (record_fields l) < 6)"
    and "Split raw ''##'' = before @ l # after"
    and "Split raw' ''##'' = before @ after"
  shows "parse_entity_line out l = Inr out \<and>
         ParseEntityOutput raw = ParseEntityOutput raw' \<and>
         (\<exists>res. ParseEntityOutput raw = Inr (res, None))"
proof -
  have d: "\<And>out. parse_entity_line out l = Inr out"
    using assms(1) by (rule dropped_record)
  have "ParseEntityOutput raw = ParseEntityOutput raw'"
    by (simp add: ParseEntityOutput_def assms(2,3) parse_entity_lines_drop [OF d])
  then show ?thesis
    using d ParseEntityOutput_total by blast
qed

lemma fields_foo: "record_fields ''(foo<||>bar<||>baz'' = [''(foo'', ''bar'', ''baz'']"
  by (simp add: record_fields_def trim_defs)

lemma fields_color: "record_fields ''(entity<||>color<||>red'' = [''(entity'', ''color'', ''red'']"
  by (simp add: record_fields_def trim_defs)

text \<open>
  The two records of the specification, each before a record that is well formed: the
  entity of the second record is parsed as if the first record were not there.
\<close>

theorem dropped_records_skipped_witness:
  "ParseEntityOutput ''(foo<||>bar<||>baz##(entity<||>product<||>iPhone<||>10<||>15<||>0.92''
     = ParseEntityOutput ''(entity<||>product<||>iPhone<||>10<||>15<||>0.92'' \<and>
   ParseEntityOutput ''(entity<||>color<||>red##(entity<||>product<||>iPhone<||>10<||>15<||>0.92''
     = ParseEntityOutput ''(entity<||>product<||>iPhone<||>10<||>15<||>0.92'' \<and>
   ParseEntityOutput ''(entity<||>product<||>iPhone<||>10<||>15<||>0.92''
     = Inr (\<lparr>Entities = [\<lparr>Type = ''product'', Raw = ''iPhone'', Start = 10, End = 15,
                            Confidence = round_f64 False 92 100\<rparr>],
              Missing = [], Language = []\<rparr>, None)"
proof (intro conjI)
  have u: "(\<not> HasPrefix (record_tag ''(foo<||>bar<||>baz'') ''(entity'' \<and>
            \<not> HasPrefix (record_tag ''(foo<||>bar<||>baz'') ''(missing'' \<and>
            \<not> HasPrefix (record_tag ''(foo<||>bar<||>baz'') ''(language'') \<or>
           (HasPrefix (record_tag ''(foo<||>bar<||>baz'') ''(entity'' \<and>
            length (record_fields ''(foo<||>bar<||>baz'') < 6)"
    by (simp add: record_tag_def fields_foo HasPrefix_def)
  have s1: "Split ''(foo<||>bar<||>baz##(entity<||>product<||>iPhone<||>10<||>15<||>0.92'' ''##''
      = [] @ ''(foo<||>bar<||>baz'' # [''(entity<||>product<||>iPhone<||>10<||>15<||>0.92'']"
    by simp
  have s2: "Split ''(entity<||>product<||>iPhone<||>10<||>15<||>0.92'' ''##''
      = [] @ [''(entity<||>product<||>iPhone<||>10<||>15<||>0.92'']"
    by simp
  show "ParseEntityOutput ''(foo<||>bar<||>baz##(entity<||>product<||>iPhone<||>10<||>15<||>0.92''
     = ParseEntityOutput ''(entity<||>product<||>iPhone<||>10<||>15<||>0.92''"
    using dropped_records_skipped [OF u s1 s2] by blast
next
  have u: "(\<not> HasPrefix (record_tag ''(entity<||>color<||>red'') ''(entity'' \<and>
            \<not> HasPrefix (record_tag ''(entity<||>color<||>red'') ''(missing'' \<and>
            \<not> HasPrefix (record_tag ''(entity<||>color<||>red'') ''(language'') \<or>
           (HasPrefix (record_tag ''(entity<||>color<||>red'') ''(entity'' \<and>
            length (record_fields ''(entity<||>color<||>red'') < 6)"
    by (simp add: record_tag_def fields_color HasPrefix_def)
  have s1: "Split ''(entity<||>color<||>red##(entity<||>product<||>iPhone<||>10<||>15<||>0.92'' ''##''
      = [] @ ''(entity<||>color<||>red'' # [''(entity<||>product<||>iPhone<||>10<||>15<||>0.92'']"
    by simp
  have s2: "Split ''(entity<||>product<||>iPhone<||>10<||>15<||>0.92'' ''##''
      = [] @ [''(entity<||>product<||>iPhone<||>10<||>15<||>0.92'']"
    by simp
  show "ParseEntityOutput ''(entity<||>color<||>red##(entity<||>product<||>iPhone<||>10<||>15<||>0.92''
     = ParseEntityOutput ''(entity<||>product<||>iPhone<||>10<||>15<||>0.92''"
    using dropped_records_skipped [OF u s1 s2] by blast
next
  have "Split ''(entity<||>product<||>iPhone<||>10<||>15<||>0.92'' ''##''
      = [''(entity<||>product<||>iPhone<||>10<||>15<||>0.92'']"
    by simp
  then show "ParseEntityOutput ''(entity<||>product<||>iPhone<||>10<||>15<||>0.92''
     = Inr (\<lparr>Entities = [\<lparr>Type = ''product'', Raw = ''iPhone'', Start = 10, End = 15,
                            Confidence = round_f64 False 92 100\<rparr>],
              Missing = [], Language = []\<rparr>, None)"
    unfolding ParseEntityOutput_def by (simp add: example_record_1 bind_Inr)
qed

subsection \<open>The language of the output\<close>

lemma not_language_when_skipped:
  "TrimSpace l = [] \<or> TrimSpace l = ''<|COMPLETE|>'' \<Longrightarrow> \<not> is_language_record l"
  by (auto simp: is_language_record_def record_tag_def record_fields_def HasPrefix_def)

lemma parse_entity_line_Language:
  "\<exists>out'. parse_entity_line out l = Inr out' \<and>
     Language out' = (if is_language_record l then record_fields l ! 1 else Language out)"
proof (cases "TrimSpace l = [] \<or> TrimSpace l = ''<|COMPLETE|>''")
  case True
  then show ?thesis
    using not_language_when_skipped [of l] by (simp add: parse_entity_line_cases)
next
  case False
  then show ?thesis
    using prefix_entity_not_others [of "record_tag l"] prefix_missing_not_language [of "record_tag l"]
    by (auto simp: parse_entity_line_cases is_language_record_def HasPrefix_def)
qed

lemma parse_entity_lines_Language:
  "\<exists>out'. parse_entity_lines out ls = Inr out' \<and>
     Language out' = (if filter is_language_record ls = [] then Language out
                      else record_fields (last (filter is_language_record ls)) ! 1)"
proof (induction ls arbitrary: out)
  case Nil
  show ?case by simp
next
  case (Cons l ls)
  obtain out1 where l1: "parse_entity_line out l = Inr out1"
    and l2: "Language out1 = (if is_language_record l then record_fields l ! 1 else Language out)"
    using parse_entity_line_Language by blast
  obtain out2 where r1: "parse_entity_lines out1 ls = Inr out2"
    and r2: "Language out2 = (if filter is_language_record ls = [] then Language out1
                      else record_fields (last (filter is_language_record ls)) ! 1)"
    using Cons.IH [of out1] by blast
  have "parse_entity_lines out (l # ls) = Inr out2"
    by (simp add: l1 r1 bind_Inr)
  moreover have "Language out2 = (if filter is_language_record (l # ls) = [] then Language out
                      else record_fields (last (filter is_language_record (l # ls))) ! 1)"
    using l2 r2 by simp
  ultimately show ?case by blast
qed

text \<open>
  Claim C9.  The language of the output of \<open>ParseEntityOutput\<close> is the code (the field
  behind the tag) of the last record of the text that has the tag \<^verbatim>\<open>(language\<close> and at
  least 4 fields: a later record of this kind overwrites an earlier one.  It is the
  empty string when the text has no such record.
\<close>

theorem last_language_record_wins:
  "\<exists>out. ParseEntityOutput raw = Inr (out, None) \<and>
     Language out =
       (if filter is_language_record (Split raw ''##'') = [] then []
        else record_fields (last (filter is_language_record (Split raw ''##''))) ! 1)"
proof -
  obtain out where
    "parse_entity_lines \<lparr>Entities = [], Missing = [], Language = []\<rparr> (Split raw ''##'') = Inr out"
    and "Language out =
       (if filter is_language_record (Split raw ''##'') = []
        then Language \<lparr>Entities = [], Missing = [], Language = []\<rparr>
        else record_fields (last (filter is_language_record (Split raw ''##''))) ! 1)"
    using parse_entity_lines_Language by blast
  then show ?thesis by (simp add: ParseEntityOutput_def bind_Inr)
qed

lemma fields_tha: "record_fields ''(language<||>tha<||>0.9<||>1'' = [''(language'', ''tha'', ''0.9'', ''1'']"
  by (simp add: record_fields_def trim_defs)

lemma fields_short: "record_fields ''(language<||>jpn'' = [''(language'', ''jpn'']"
  by (simp add: record_fields_def trim_defs)

lemma fields_eng: "record_fields ''(language<||>eng<||>1<||>1'' = [''(language'', ''eng'', ''1'', ''1'']"
  by (simp add: record_fields_def trim_defs)

text \<open>
  Two language records of 4 fields with a record of 2 fields behind them: the language
  is the one of the second record; a text with no language record has none.
\<close>

theorem last_language_record_wins_witness:
  "(\<exists>out. ParseEntityOutput
            ''(language<||>tha<||>0.9<||>1##(language<||>eng<||>1<||>1##(language<||>jpn''
          = Inr (out, None) \<and> Language out = ''eng'') \<and>
   (\<exists>out. ParseEntityOutput ''(missing<||>brand'' = Inr (out, None) \<and> Language out = [])"
proof
  have s: "Split ''(language<||>tha<||>0.9<||>1##(language<||>eng<||>1<||>1##(language<||>jpn'' ''##''
    = [''(language<||>tha<||>0.9<||>1'', ''(language<||>eng<||>1<||>1'', ''(language<||>jpn'']"
    by simp
  have f: "filter is_language_record
      [''(language<||>tha<||>0.9<||>1'', ''(language<||>eng<||>1<||>1'', ''(language<||>jpn'']
    = [''(language<||>tha<||>0.9<||>1'', ''(language<||>eng<||>1<||>1'']"
    by (simp add: is_language_record_def record_tag_def fields_tha fields_eng fields_short
        HasPrefix_def)
  show "\<exists>out. ParseEntityOutput
            ''(language<||>tha<||>0.9<||>1##(language<||>eng<||>1<||>1##(language<||>jpn''
          = Inr (out, None) \<and> Language out = ''eng''"
    using last_language_record_wins
      [of "''(language<||>tha<||>0.9<||>1##(language<||>eng<||>1<||>1##(language<||>jpn''"]
    unfolding s f by (simp add: fields_eng)
next
  have s: "Split ''(missing<||>brand'' ''##'' = [''(missing<||>brand'']"
    by simp
  have f: "filter is_language_record [''(missing<||>brand''] = []"
    by (simp add: is_language_record_def record_tag_def record_fields_def trim_defs HasPrefix_def)
  show "\<exists>out. ParseEntityOutput ''(missing<||>brand'' = Inr (out, None) \<and> Language out = []"
    using last_language_record_wins [of "''(missing<||>brand''"]
    unfolding s f by simp
qed

subsection \<open>Fields are not trimmed\<close>







section \<open>The renderers\<close>

lemma dom_uniq_loop: "dom (uniq_loop es m) = dom m \<union> TrimSpace ` set es"
  by (induction es arbitrary: m) auto

lemma dom_uniq_of: "dom (uniq_of inp) = TrimSpace ` set (AllowedEntities inp)"
  by (simp add: uniq_of_def dom_uniq_loop)

lemma source_constants:
  "TrimSpace ''Chative Brand'' = ''Chative Brand''"
  "TrimSpace ''Online Storefront'' = ''Online Storefront''"
  "TrimSpace ''Young Professionals seeking lifestyle upgrades''
     = ''Young Professionals seeking lifestyle upgrades''"
  "TrimSpace ''EXPERT'' = ''EXPERT''"
  "ToUpper U ''EXPERT'' = ''EXPERT''"
  by (simp_all add: trim_defs ToUpper_def upperAZ_def)

lemma trim_padded_constants:
  "TrimSpace ''  '' = []"
  "TrimSpace '' Chative Brand '' = ''Chative Brand''"
  "TrimSpace '' EXPERT '' = ''EXPERT''"
  "TrimSpace '' precise and factual '' = ''precise and factual''"
  "TrimSpace '' brand '' = ''brand''"
  by (simp_all add: trim_defs)


lemma persona_example:
  "replace_loop
     (persona_replacements ''Chative Brand'' ''Online Storefront''
        ''Young Professionals seeking lifestyle upgrades'' ''EXPERT'' '' precise and factual '')
     [''{{MBTI}}'', ''{{BRAND_NAME}}'', ''{{CHANNEL}}'', ''{{MBTI_TYPE}}'', ''{{TARGET_SEGMENTS}}'']
     ''You are {{BRAND_NAME}} on {{CHANNEL}} for {{TARGET_SEGMENTS}}. {{MBTI_TYPE}}: {{MBTI}}''
   = ''You are Chative Brand on Online Storefront for Young Professionals seeking lifestyle upgrades. EXPERT: precise and factual''"
  by (simp add: persona_replacements_def ReplaceAll_def trim_padded_constants)

lemma persona_example_clean:
  "\<not> Contains ''You are Chative Brand on Online Storefront for Young Professionals seeking lifestyle upgrades. EXPERT: precise and factual'' ''{{''"
  by simp

lemma Contains_marker: "Contains ''You are Chative Brand, {{PERSONA}}'' ''{{''"
  by simp

lemma persona_example_unknown:
  "replace_loop
     (persona_replacements ''Chative Brand'' ''Online Storefront''
        ''Young Professionals seeking lifestyle upgrades'' ''EXPERT'' '' precise and factual '')
     [''{{MBTI}}'', ''{{BRAND_NAME}}'', ''{{CHANNEL}}'', ''{{MBTI_TYPE}}'', ''{{TARGET_SEGMENTS}}'']
     ''You are {{BRAND_NAME}}, {{PERSONA}}''
   = ''You are Chative Brand, {{PERSONA}}''"
  by (simp add: persona_replacements_def ReplaceAll_def trim_padded_constants)

subsection \<open>Empty fields\<close>





subsection \<open>Markers left in the prompt\<close>

text \<open>
  Claim C5, as the code has it.  Once its values are not empty and the profile is found,
  \<open>renderSystemPrompt\<close> looks for \<^verbatim>\<open>{{\<close> in the result of its replacements: when it is
  there, the renderer fails with the error ``system prompt still contains unresolved
  placeholders'' and returns no prompt; when it is not, the result is the prompt.  So a
  prompt that it returns has no \<^verbatim>\<open>{{\<close> in it, in whatever order the replacements were
  made.  \<open>RenderEntitySystem\<close> and \<open>RenderintentSystem\<close> do not look at their result: what
  they return is the template with the values put in, as the replacer leaves it.
\<close>

theorem persona_prompt_has_no_marker:
  "(TrimSpace (brandNameDefault cfg) \<noteq> [] \<and> TrimSpace (channelDefault cfg) \<noteq> [] \<and>
    TrimSpace (targetSegmentsDefault cfg) \<noteq> [] \<and>
    ToUpper U (TrimSpace (mbtiTypeDefault cfg)) \<noteq> [] \<and>
    profiles (ToUpper U (TrimSpace (mbtiTypeDefault cfg))) = Some mbtiDescription \<longrightarrow>
      renderSystemPrompt_with cfg U (Inr profiles) ks template
        = (if Contains
                (replace_loop
                   (persona_replacements (TrimSpace (brandNameDefault cfg))
                      (TrimSpace (channelDefault cfg)) (TrimSpace (targetSegmentsDefault cfg))
                      (ToUpper U (TrimSpace (mbtiTypeDefault cfg))) mbtiDescription)
                   ks template) ''{{''
           then Inl (Errorf ''system prompt still contains unresolved placeholders'' [])
           else Inr (replace_loop
                   (persona_replacements (TrimSpace (brandNameDefault cfg))
                      (TrimSpace (channelDefault cfg)) (TrimSpace (targetSegmentsDefault cfg))
                      (ToUpper U (TrimSpace (mbtiTypeDefault cfg))) mbtiDescription)
                   ks template))) \<and>
   (profiles ''EXPERT'' = Some mbtiDescription \<longrightarrow>
      renderSystemPrompt U (Inr profiles) ks template
        = (if Contains
                (replace_loop
                   (persona_replacements ''Chative Brand'' ''Online Storefront''
                      ''Young Professionals seeking lifestyle upgrades'' ''EXPERT''
                      mbtiDescription)
                   ks template) ''{{''
           then Inl (Errorf ''system prompt still contains unresolved placeholders'' [])
           else Inr (replace_loop
                   (persona_replacements ''Chative Brand'' ''Online Storefront''
                      ''Young Professionals seeking lifestyle upgrades'' ''EXPERT''
                      mbtiDescription)
                   ks template))) \<and>
   (renderSystemPrompt_with cfg U loadMBTIProfiles ks template = Inr s \<longrightarrow>
      \<not> Contains s ''{{'' \<and> \<not> (\<exists>p q. s = p @ ''{{'' @ q)) \<and>
   RenderEntitySystem placeholder_format entityTemplate ks' (Some inp)
     = Inr (Replace [(''{{intent_name}}'', IntentName inp),
                     (''{{required_keys_csv}}'', Join (RequiredKeys inp) '',''),
                     (''{{allowed_entities_csv}}'', Join ks' '',''),
                     (''{{user_message}}'', UserMessage inp),
                     (''{{language}}'', entityModelInput.Language inp)] entityTemplate) \<and>
   RenderintentSystem placeholder_format intentTemplate (Some icfg)
     = Inr (Replace [(''{TD}'', ''<||>''), (''{RD}'', ''##''), (''{CD}'', ''<|COMPLETE|>''),
                     (''{intent_list}'', IntentList icfg)] intentTemplate)"
proof (intro conjI)
  show "renderSystemPrompt_with cfg U loadMBTIProfiles ks template = Inr s \<longrightarrow>
      \<not> Contains s ''{{'' \<and> \<not> (\<exists>p q. s = p @ ''{{'' @ q)"
  proof
    assume "renderSystemPrompt_with cfg U loadMBTIProfiles ks template = Inr s"
    then have "\<not> Contains s ''{{''"
      by (auto simp: renderSystemPrompt_with_def Let_def
          split: if_splits sum.splits option.splits)
    then show "\<not> Contains s ''{{'' \<and> \<not> (\<exists>p q. s = p @ ''{{'' @ q)"
      by (simp add: Contains_iff)
  qed
  show "RenderEntitySystem placeholder_format entityTemplate ks' (Some inp)
     = Inr (Replace [(''{{intent_name}}'', IntentName inp),
                     (''{{required_keys_csv}}'', Join (RequiredKeys inp) '',''),
                     (''{{allowed_entities_csv}}'', Join ks' '',''),
                     (''{{user_message}}'', UserMessage inp),
                     (''{{language}}'', entityModelInput.Language inp)] entityTemplate)"
    by (simp add: RenderEntitySystem_def first_message_placeholder entity_content_def
        allowedCSV_def)
  show "RenderintentSystem placeholder_format intentTemplate (Some icfg)
     = Inr (Replace [(''{TD}'', ''<||>''), (''{RD}'', ''##''), (''{CD}'', ''<|COMPLETE|>''),
                     (''{intent_list}'', IntentList icfg)] intentTemplate)"
    by (simp add: RenderintentSystem_def first_message_placeholder)
qed (simp_all add: renderSystemPrompt_def renderSystemPrompt_with_def personaDefaults_def
       source_constants Let_def)

text \<open>
  The constants of the source and a profile for \<^verbatim>\<open>EXPERT\<close>: a template of the five
  markers gives a prompt, a template with a marker that is not known gives the error.
\<close>

theorem persona_prompt_has_no_marker_witness:
  "renderSystemPrompt id (Inr [''EXPERT'' \<mapsto> '' precise and factual ''])
     [''{{MBTI}}'', ''{{BRAND_NAME}}'', ''{{CHANNEL}}'', ''{{MBTI_TYPE}}'', ''{{TARGET_SEGMENTS}}'']
     ''You are {{BRAND_NAME}} on {{CHANNEL}} for {{TARGET_SEGMENTS}}. {{MBTI_TYPE}}: {{MBTI}}''
   = Inr ''You are Chative Brand on Online Storefront for Young Professionals seeking lifestyle upgrades. EXPERT: precise and factual'' \<and>
   \<not> Contains ''You are Chative Brand on Online Storefront for Young Professionals seeking lifestyle upgrades. EXPERT: precise and factual'' ''{{'' \<and>
   renderSystemPrompt id (Inr [''EXPERT'' \<mapsto> '' precise and factual ''])
     [''{{MBTI}}'', ''{{BRAND_NAME}}'', ''{{CHANNEL}}'', ''{{MBTI_TYPE}}'', ''{{TARGET_SEGMENTS}}'']
     ''You are {{BRAND_NAME}}, {{PERSONA}}''
   = Inl (Errorf ''system prompt still contains unresolved placeholders'' []) \<and>
   renderSystemPrompt_with personaDefaults id (Inr [''EXPERT'' \<mapsto> '' precise and factual ''])
     [''{{MBTI}}'', ''{{BRAND_NAME}}'', ''{{CHANNEL}}'', ''{{MBTI_TYPE}}'', ''{{TARGET_SEGMENTS}}'']
     ''You are {{BRAND_NAME}}, {{PERSONA}}''
   = Inl (Errorf ''system prompt still contains unresolved placeholders'' [])"
proof -
  let ?ks = "[''{{MBTI}}'', ''{{BRAND_NAME}}'', ''{{CHANNEL}}'', ''{{MBTI_TYPE}}'', ''{{TARGET_SEGMENTS}}'']"
  let ?t = "''You are {{BRAND_NAME}} on {{CHANNEL}} for {{TARGET_SEGMENTS}}. {{MBTI_TYPE}}: {{MBTI}}''"
  let ?u = "''You are {{BRAND_NAME}}, {{PERSONA}}''"
  let ?p = "[''EXPERT'' \<mapsto> '' precise and factual ''] :: string \<rightharpoonup> string"
  note t = persona_prompt_has_no_marker
  have 1: "renderSystemPrompt id (Inr ?p) ?ks ?t
      = Inr ''You are Chative Brand on Online Storefront for Young Professionals seeking lifestyle upgrades. EXPERT: precise and factual''"
    using t [where U = id and profiles = ?p and mbtiDescription = "'' precise and factual ''"
        and ks = ?ks and template = ?t, THEN conjunct2, THEN conjunct1]
    by (simp add: persona_example persona_example_clean del: replace_loop.simps)
  have 2: "\<not> Contains ''You are Chative Brand on Online Storefront for Young Professionals seeking lifestyle upgrades. EXPERT: precise and factual'' ''{{''"
    using 1 t [where cfg = personaDefaults and U = id and loadMBTIProfiles = "Inr ?p"
        and ks = ?ks and template = ?t
        and s = "''You are Chative Brand on Online Storefront for Young Professionals seeking lifestyle upgrades. EXPERT: precise and factual''",
        THEN conjunct2, THEN conjunct2, THEN conjunct1]
    by (simp add: renderSystemPrompt_def)
  have 3: "renderSystemPrompt id (Inr ?p) ?ks ?u
      = Inl (Errorf ''system prompt still contains unresolved placeholders'' [])"
    using t [where U = id and profiles = ?p and mbtiDescription = "'' precise and factual ''"
        and ks = ?ks and template = ?u, THEN conjunct2, THEN conjunct1]
    by (simp add: persona_example_unknown Contains_marker del: replace_loop.simps)
  have 4: "renderSystemPrompt_with personaDefaults id (Inr ?p) ?ks ?u
      = Inl (Errorf ''system prompt still contains unresolved placeholders'' [])"
    using t [where cfg = personaDefaults and U = id and profiles = ?p
        and mbtiDescription = "'' precise and factual ''" and ks = ?ks and template = ?u,
        THEN conjunct1]
    by (simp add: personaDefaults_def source_constants persona_example_unknown Contains_marker
        del: replace_loop.simps)
  from 1 2 3 4 show ?thesis by blast
qed

text \<open>
  Claim C5 as it is written fails for the entity prompt.  A marker of the template that
  the replacer does not know stays in the prompt that \<open>RenderEntitySystem\<close> returns; and
  with a template whose markers are all known, a user message that contains \<^verbatim>\<open>{{\<close>
  brings it into the prompt.
\<close>

theorem entity_prompt_keeps_marker:
  "RenderEntitySystem placeholder_format ''Intent {{intent_name}}, see {{unknown}}'' [''brand'']
     (Some \<lparr>IntentName = ''ask_price'', RequiredKeys = [''product''], AllowedEntities = [''brand''],
            UserMessage = ''how much'', Language = ''eng''\<rparr>)
   = Inr ''Intent ask_price, see {{unknown}}'' \<and>
   Contains ''Intent ask_price, see {{unknown}}'' ''{{'' \<and>
   RenderEntitySystem placeholder_format ''Intent {{intent_name}}, message {{user_message}}'' [''brand'']
     (Some \<lparr>IntentName = ''ask_price'', RequiredKeys = [''product''], AllowedEntities = [''brand''],
            UserMessage = ''what is {{this'', Language = ''eng''\<rparr>)
   = Inr ''Intent ask_price, message what is {{this'' \<and>
   Contains ''Intent ask_price, message what is {{this'' ''{{''"
  by (simp add: RenderEntitySystem_def first_message_placeholder entity_content_def allowedCSV_def)

subsection \<open>The allowed entities\<close>

text \<open>
  Claim C6, as the code has it.  The allowed entities are trimmed and collected as the
  keys of a map, and the keys are joined with commas in the order in which the loop over
  the map gives them.  In every such order each trimmed entity is in the list once, and
  nothing else is; the order itself is not fixed, so two calls on the same input give
  lists that are permutations of each other.
\<close>

theorem allowed_entities_deduplicated:
  assumes "range_order (uniq_of inp) ks"
  shows "distinct ks \<and> set ks = TrimSpace ` set (AllowedEntities inp) \<and>
         (\<forall>e\<in>set (AllowedEntities inp). count_list ks (TrimSpace e) = 1) \<and>
         allowedCSV ks = Join ks '','' \<and>
         (\<forall>ks'. range_order (uniq_of inp) ks' \<longrightarrow> mset ks' = mset ks)"
proof -
  have d: "distinct ks" and s: "set ks = TrimSpace ` set (AllowedEntities inp)"
    using assms by (simp_all add: range_order_def dom_uniq_of)
  have c: "\<forall>e\<in>set (AllowedEntities inp). count_list ks (TrimSpace e) = 1"
    using d s by (simp add: count_list_distinct)
  have p: "\<forall>ks'. range_order (uniq_of inp) ks' \<longrightarrow> mset ks' = mset ks"
    using d s by (auto simp: range_order_def dom_uniq_of set_eq_iff_mset_eq_distinct [symmetric])
  from d s c p show ?thesis by (simp add: allowedCSV_def)
qed

lemma trim_brand_price:
  "TrimSpace ''brand'' = ''brand''" "TrimSpace '' price'' = ''price''" "TrimSpace ''brand '' = ''brand''"
  by (simp_all add: trim_defs)

lemma example_orders:
  "range_order (uniq_of \<lparr>IntentName = ''ask_price'', RequiredKeys = [''product''],
       AllowedEntities = [''brand'', '' price'', ''brand ''], UserMessage = ''how much'',
       Language = ''eng''\<rparr>) [''brand'', ''price'']"
  "range_order (uniq_of \<lparr>IntentName = ''ask_price'', RequiredKeys = [''product''],
       AllowedEntities = [''brand'', '' price'', ''brand ''], UserMessage = ''how much'',
       Language = ''eng''\<rparr>) [''price'', ''brand'']"
  by (auto simp: range_order_def dom_uniq_of trim_brand_price)

text \<open>The allowed entities brand, price and brand again, with spaces around two of them.\<close>

theorem allowed_entities_deduplicated_witness:
  "range_order (uniq_of \<lparr>IntentName = ''ask_price'', RequiredKeys = [''product''],
       AllowedEntities = [''brand'', '' price'', ''brand ''], UserMessage = ''how much'',
       Language = ''eng''\<rparr>) [''price'', ''brand''] \<and>
   count_list [''price'', ''brand''] (TrimSpace ''brand '') = 1 \<and>
   allowedCSV [''price'', ''brand''] = ''price,brand'' \<and>
   mset [''brand'', ''price''] = mset [''price'', ''brand'']"
  using allowed_entities_deduplicated [OF example_orders(2)] example_orders
  by (simp add: trim_brand_price)

text \<open>
  Claim C6 as it is written fails: on one input, the two orders in which the loop may
  give the keys brand and price lead to two different prompts.
\<close>

theorem entity_prompt_order_differs:
  "range_order (uniq_of \<lparr>IntentName = ''ask_price'', RequiredKeys = [''product''],
       AllowedEntities = [''brand'', '' price'', ''brand ''], UserMessage = ''how much'',
       Language = ''eng''\<rparr>) [''brand'', ''price''] \<and>
   range_order (uniq_of \<lparr>IntentName = ''ask_price'', RequiredKeys = [''product''],
       AllowedEntities = [''brand'', '' price'', ''brand ''], UserMessage = ''how much'',
       Language = ''eng''\<rparr>) [''price'', ''brand''] \<and>
   RenderEntitySystem placeholder_format ''Allowed: {{allowed_entities_csv}}'' [''brand'', ''price'']
     (Some \<lparr>IntentName = ''ask_price'', RequiredKeys = [''product''],
       AllowedEntities = [''brand'', '' price'', ''brand ''], UserMessage = ''how much'',
       Language = ''eng''\<rparr>) = Inr ''Allowed: brand,price'' \<and>
   RenderEntitySystem placeholder_format ''Allowed: {{allowed_entities_csv}}'' [''price'', ''brand'']
     (Some \<lparr>IntentName = ''ask_price'', RequiredKeys = [''product''],
       AllowedEntities = [''brand'', '' price'', ''brand ''], UserMessage = ''how much'',
       Language = ''eng''\<rparr>) = Inr ''Allowed: price,brand''"
  using example_orders
  by (simp add: RenderEntitySystem_def first_message_placeholder entity_content_def allowedCSV_def)

section \<open>The registry of required keys\<close>

lemma keys_loop_filter:
  "keys_loop parts keys = keys @ filter (\<lambda>k. k \<noteq> []) (map TrimSpace parts)"
  by (induction parts arbitrary: keys) auto

text \<open>
  Claim C8, as the code has it.  For an intent name that is not empty, the name is
  trimmed, its spaces and hyphens become underscores, it is put in upper case, and the
  variable \<^verbatim>\<open>NLU_REQUIRED_\<close> followed by that name is read.  Without such a variable the
  result is the empty list; with one, it is the list of the items of its value between
  commas, each trimmed, in their order, the items that are blank left out.  For the
  empty intent name the result is the empty list and no variable is read.  There is no
  error in any case.
\<close>

theorem RequiredKeysForIntent_lookup:
  "RequiredKeysForIntent U env intentName =
     (if intentName = [] then []
      else case env (''NLU_REQUIRED_'' @
                     ToUpper U (map (\<lambda>c. if c = CHR '' '' \<or> c = CHR ''-'' then CHR ''_'' else c)
                                  (TrimSpace intentName))) of
             None \<Rightarrow> []
           | Some v \<Rightarrow> filter (\<lambda>k. k \<noteq> []) (map TrimSpace (Split v '','')))"
  by (simp add: RequiredKeysForIntent_def envKey_def Getenv_def keys_loop_filter
      Replace_space_hyphen Let_def TrimSpace_Nil split: option.splits)

lemma trim_examples:
  "TrimSpace '' ask-price '' = ''ask-price''" "TrimSpace '' product '' = ''product''"
  "TrimSpace '' '' = []" "TrimSpace ''brand'' = ''brand''" "TrimSpace ''product'' = ''product''"
  "TrimSpace ''greet'' = ''greet''" "TrimSpace [] = []"
  by (simp_all add: trim_defs)

text \<open>The intent \<^verbatim>\<open>ask-price\<close> written with spaces around it, and an intent with no variable.\<close>

theorem RequiredKeysForIntent_lookup_witness:
  "RequiredKeysForIntent id [''NLU_REQUIRED_ASK_PRICE'' \<mapsto> '' product , ,brand,''] '' ask-price ''
     = [''product'', ''brand''] \<and>
   RequiredKeysForIntent id [''NLU_REQUIRED_ASK_PRICE'' \<mapsto> '' product , ,brand,''] ''greet'' = []"
  by (simp add: RequiredKeysForIntent_lookup trim_examples ToUpper_def upperAZ_def char_of_def
      bit_Suc_0_iff)

text \<open>
  Claim C8 as it is written fails for the empty intent name: its normalized name is
  empty, the variable \<^verbatim>\<open>NLU_REQUIRED_\<close> is set to two keys, and the result is the empty
  list.  (The name of one space has the same normalized name and gets the two keys.)
\<close>

theorem empty_intent_name_skips_lookup:
  "envKey id '''' = ''NLU_REQUIRED_'' \<and>
   [''NLU_REQUIRED_'' \<mapsto> ''product,brand''] (envKey id '''') = Some ''product,brand'' \<and>
   RequiredKeysForIntent id [''NLU_REQUIRED_'' \<mapsto> ''product,brand''] '''' = [] \<and>
   RequiredKeysForIntent id [''NLU_REQUIRED_'' \<mapsto> ''product,brand''] '' '' = [''product'', ''brand'']"
  by (simp add: envKey_def RequiredKeysForIntent_def Getenv_def ToUpper_def TrimSpace_Nil
      trim_examples)

end
